theory Spec2Isabelle
  imports Main "HOL-Library.Word"
begin

unbundle bit_operations_syntax

section \<open>The FIR stereo driver (fir\_stereo.c, fir\_stereo.h)\<close>

subsection \<open>Platform types\<close>

text \<open>
  The fixed-width types \<open>u8\<close>, \<open>u32\<close> and \<open>s16\<close> of xil\_types.h, a platform
  header that is not among the sources. \<open>s16\<close> is kept as a 16-bit word and read as
  two's complement with \<open>sint\<close>; a widening cast from it is \<open>scast\<close> (sign
  extension), a narrowing cast to it is \<open>ucast\<close> (truncation).

  \<open>UINTPTR\<close> is the pointer-sized unsigned integer of the platform, declared in the
  same header. Its width is not fixed by the driver's sources, so it is the type
  parameter \<open>'a\<close> everywhere below: an address is an \<open>'a word\<close>, and arithmetic on
  addresses wraps around at \<open>2 ^ LENGTH('a)\<close>. It is 32 bits on the 32-bit targets of
  the platform and 64 bits on the 64-bit ones.
\<close>

type_synonym u8 = "8 word"
type_synonym u32 = "32 word"
type_synonym s16 = "16 word"

subsection \<open>Register offsets and control bits (fir\_stereo.h)\<close>

definition FIR_REG_CTRL_OFFSET :: "'a::len word" where
  "FIR_REG_CTRL_OFFSET = 0x00"

definition FIR_MEM_COEFF_OFFSET :: "'a::len word" where
  "FIR_MEM_COEFF_OFFSET = 0x10"

definition FIR_CTRL_ENABLE_BIT :: u32 where
  "FIR_CTRL_ENABLE_BIT = push_bit 0 1"

definition FIR_CTRL_CLEAR_BIT :: u32 where
  "FIR_CTRL_CLEAR_BIT = push_bit 1 1"

subsection \<open>Driver instance structure\<close>

record 'addr FirStereo_Config =
  BaseAddress :: 'addr
  NumTaps :: u32
  IsReady :: u32

subsection \<open>Status constants and bus primitives of the platform\<close>

text \<open>
  Modelled from the spec: the status constants of xstatus.h, which is not among the
  sources. The spec asks for distinct success and failure indicators and for a ready
  flag; the values are those of the Xilinx standalone headers. Nothing below depends on
  them beyond \<open>XST_SUCCESS \<noteq> XST_FAILURE\<close>.
\<close>

definition XST_SUCCESS :: int where
  "XST_SUCCESS = 0"

definition XST_FAILURE :: int where
  "XST_FAILURE = 1"

definition XIL_COMPONENT_IS_READY :: u32 where
  "XIL_COMPONENT_IS_READY = 0x11111111"

text \<open>
  The device as the driver sees it: a store of 32-bit words indexed by address, and the
  ordered log of every bus access with its address and value.
\<close>

datatype 'addr access = Read 'addr u32 | Write 'addr u32

record 'addr mmio =
  mem :: "'addr \<Rightarrow> u32"
  log :: "'addr access list"

text \<open>
  Modelled from the spec: \<open>Xil_Out32\<close> and \<open>Xil_In32\<close> of xil\_io.h, which is not
  among the sources. They are the infallible volatile 32-bit store and load of section 6;
  a load from an address returns the last value stored to it, and each call is exactly
  one entry of the log.
\<close>

definition Xil_Out32 :: "'addr \<Rightarrow> u32 \<Rightarrow> 'addr mmio \<Rightarrow> 'addr mmio" where
  "Xil_Out32 Addr Value s = s\<lparr>mem := (mem s)(Addr := Value), log := log s @ [Write Addr Value]\<rparr>"

definition Xil_In32 :: "'addr \<Rightarrow> 'addr mmio \<Rightarrow> u32 \<times> 'addr mmio" where
  "Xil_In32 Addr s = (mem s Addr, s\<lparr>log := log s @ [Read Addr (mem s Addr)]\<rparr>)"

subsection \<open>Low-level register access macros\<close>

definition FIR_WriteReg :: "'a::len word \<Rightarrow> 'a word \<Rightarrow> u32 \<Rightarrow> 'a word mmio \<Rightarrow> 'a word mmio" where
  "FIR_WriteReg BaseAddr Offset Data = Xil_Out32 (BaseAddr + Offset) Data"

definition FIR_ReadReg :: "'a::len word \<Rightarrow> 'a word \<Rightarrow> 'a word mmio \<Rightarrow> u32 \<times> 'a word mmio" where
  "FIR_ReadReg BaseAddr Offset = Xil_In32 (BaseAddr + Offset)"

subsection \<open>Driver API\<close>

definition FIR_Enable :: "'a::len word FirStereo_Config \<Rightarrow> u8 \<Rightarrow> 'a word mmio \<Rightarrow> 'a word mmio" where
  "FIR_Enable InstancePtr Enable s =
     (case FIR_ReadReg (BaseAddress InstancePtr) FIR_REG_CTRL_OFFSET s of
        (RegVal, s1) \<Rightarrow>
          FIR_WriteReg (BaseAddress InstancePtr) FIR_REG_CTRL_OFFSET
            (if Enable \<noteq> 0 then RegVal OR FIR_CTRL_ENABLE_BIT
             else RegVal AND NOT FIR_CTRL_ENABLE_BIT) s1)"

definition FIR_SoftReset :: "'a::len word FirStereo_Config \<Rightarrow> 'a word mmio \<Rightarrow> 'a word mmio" where
  "FIR_SoftReset InstancePtr s =
     (let Base = BaseAddress InstancePtr in
      case FIR_ReadReg Base FIR_REG_CTRL_OFFSET s of
        (RegVal, s1) \<Rightarrow>
          FIR_WriteReg Base FIR_REG_CTRL_OFFSET (RegVal AND NOT FIR_CTRL_CLEAR_BIT)
            (FIR_WriteReg Base FIR_REG_CTRL_OFFSET (RegVal OR FIR_CTRL_CLEAR_BIT) s1))"

text \<open>
  \<open>FIR_Init\<close> takes the descriptor pointer: \<open>None\<close> is \<open>NULL\<close>, \<open>Some d\<close> points
  to a descriptor slot holding \<open>d\<close>. It returns the status, the slot afterwards and the
  device afterwards.
\<close>

definition FIR_Init ::
  "'a::len word FirStereo_Config option \<Rightarrow> 'a word \<Rightarrow> u32 \<Rightarrow> 'a word mmio
     \<Rightarrow> int \<times> 'a word FirStereo_Config option \<times> 'a word mmio" where
  "FIR_Init InstancePtr BaseAddr Taps s =
     (case InstancePtr of
        None \<Rightarrow> (XST_FAILURE, None, s)
      | Some d \<Rightarrow>
          (let d' = d\<lparr>BaseAddress := BaseAddr, NumTaps := Taps,
                      IsReady := XIL_COMPONENT_IS_READY\<rparr>
           in (XST_SUCCESS, Some d', FIR_SoftReset d' (FIR_Enable d' 0 s))))"

text \<open>
  The address of coefficient slot \<open>TapIndex\<close>: \<open>TapIndex * 4\<close> is computed in
  \<open>u32\<close> and then converted to \<open>UINTPTR\<close> for the addition.
\<close>

definition coeff_addr :: "'a::len word FirStereo_Config \<Rightarrow> u32 \<Rightarrow> 'a word" where
  "coeff_addr InstancePtr TapIndex =
     BaseAddress InstancePtr + FIR_MEM_COEFF_OFFSET + ucast (TapIndex * 4)"

definition FIR_SetCoeff :: "'a::len word FirStereo_Config \<Rightarrow> u32 \<Rightarrow> s16 \<Rightarrow> 'a word mmio \<Rightarrow> 'a word mmio" where
  "FIR_SetCoeff InstancePtr TapIndex Value s =
     (if TapIndex \<ge> NumTaps InstancePtr then s
      else FIR_WriteReg (coeff_addr InstancePtr TapIndex) 0 (scast Value) s)"

definition FIR_GetCoeff :: "'a::len word FirStereo_Config \<Rightarrow> u32 \<Rightarrow> 'a word mmio \<Rightarrow> s16 \<times> 'a word mmio" where
  "FIR_GetCoeff InstancePtr TapIndex s =
     (if TapIndex \<ge> NumTaps InstancePtr then (0, s)
      else case FIR_ReadReg (coeff_addr InstancePtr TapIndex) 0 s of
             (v, s1) \<Rightarrow> (ucast v, s1))"

text \<open>The loop \<open>for (u32 i = Limit; i < NumTaps; i++) FIR_SetCoeff(InstancePtr, i, 0)\<close>.\<close>

function clear_loop :: "'a::len word FirStereo_Config \<Rightarrow> u32 \<Rightarrow> 'a word mmio \<Rightarrow> 'a word mmio" where
  "clear_loop InstancePtr i s =
     (if i < NumTaps InstancePtr
      then clear_loop InstancePtr (i + 1) (FIR_SetCoeff InstancePtr i 0 s)
      else s)"
  by pat_completeness auto
termination
proof (relation "measure (\<lambda>(c, i, s). unat (NumTaps c) - unat i)")
  fix InstancePtr :: "'a word FirStereo_Config" and i :: u32 and s :: "'a word mmio"
  assume "i < NumTaps InstancePtr"
  then have below: "unat i < unat (NumTaps InstancePtr)"
    by (simp add: word_less_nat_alt)
  moreover have "unat (NumTaps InstancePtr) < 2 ^ 32"
    using unsigned_less [of "NumTaps InstancePtr"] by simp
  ultimately have "unat (i + 1) = Suc (unat i)"
    by (simp add: unat_word_ariths)
  with below show "((InstancePtr, i + 1, FIR_SetCoeff InstancePtr i 0 s), (InstancePtr, i, s))
      \<in> measure (\<lambda>(c, i, s). unat (NumTaps c) - unat i)"
    by simp
qed simp

text \<open>
  The loop \<open>for (u32 i = 0; i < Limit; i++) FIR_SetCoeff(InstancePtr, i, CoeffArray[i])\<close>.
  \<open>CoeffArray\<close> is a pointer to \<open>s16\<close>; it is modelled by the indexing function of
  the memory it points to, \<open>CoeffArray i\<close> being the element at index \<open>i\<close>.
\<close>

function load_loop ::
  "'a::len word FirStereo_Config \<Rightarrow> (u32 \<Rightarrow> s16) \<Rightarrow> u32 \<Rightarrow> u32 \<Rightarrow> 'a word mmio \<Rightarrow> 'a word mmio" where
  "load_loop InstancePtr CoeffArray Limit i s =
     (if i < Limit
      then load_loop InstancePtr CoeffArray Limit (i + 1)
             (FIR_SetCoeff InstancePtr i (CoeffArray i) s)
      else s)"
  by pat_completeness auto
termination
proof (relation "measure (\<lambda>(c, A, l, i, s). unat l - unat i)")
  fix InstancePtr :: "'a word FirStereo_Config" and CoeffArray :: "u32 \<Rightarrow> s16"
    and Limit i :: u32 and s :: "'a word mmio"
  assume "i < Limit"
  then have below: "unat i < unat Limit"
    by (simp add: word_less_nat_alt)
  moreover have "unat Limit < 2 ^ 32"
    using unsigned_less [of Limit] by simp
  ultimately have "unat (i + 1) = Suc (unat i)"
    by (simp add: unat_word_ariths)
  with below show "((InstancePtr, CoeffArray, Limit, i + 1,
        FIR_SetCoeff InstancePtr i (CoeffArray i) s), (InstancePtr, CoeffArray, Limit, i, s))
      \<in> measure (\<lambda>(c, A, l, i, s). unat l - unat i)"
    by simp
qed simp

definition FIR_LoadConfig ::
  "'a::len word FirStereo_Config \<Rightarrow> (u32 \<Rightarrow> s16) \<Rightarrow> u32 \<Rightarrow> 'a word mmio \<Rightarrow> 'a word mmio" where
  "FIR_LoadConfig InstancePtr CoeffArray Length s =
     (case FIR_ReadReg (BaseAddress InstancePtr) FIR_REG_CTRL_OFFSET s of
        (CtrlReg, s1) \<Rightarrow>
          (let WasEnabled = (if CtrlReg AND FIR_CTRL_ENABLE_BIT \<noteq> 0 then 1 else 0 :: u8);
               s2 = FIR_Enable InstancePtr 0 s1;
               Limit = (if Length < NumTaps InstancePtr then Length else NumTaps InstancePtr);
               s3 = clear_loop InstancePtr Limit s2;
               s4 = load_loop InstancePtr CoeffArray Limit 0 s3
           in if WasEnabled \<noteq> 0 then FIR_Enable InstancePtr 1 s4 else s4))"

declare clear_loop.simps [simp del]
declare load_loop.simps [simp del]

subsection \<open>Vocabulary of the properties\<close>

text \<open>The tap indices \<open>lo, lo + 1, \<dots>, hi - 1\<close> in ascending order.\<close>

definition tap_range :: "u32 \<Rightarrow> u32 \<Rightarrow> u32 list" where
  "tap_range lo hi = map of_nat [unat lo ..< unat hi]"

text \<open>The two kinds of log entry.\<close>

fun is_read :: "'addr access \<Rightarrow> bool" where
  "is_read (Read a v) = True"
| "is_read (Write a v) = False"

fun is_write :: "'addr access \<Rightarrow> bool" where
  "is_write (Read a v) = False"
| "is_write (Write a v) = True"

text \<open>
  The coefficient window \<open>0x10 + 4 * NumTaps\<close> does not wrap around onto the CTRL
  register: either addresses are wider than the 32 bits in which \<open>TapIndex * 4\<close> is
  computed, or they are 32 bits wide and the last slot ends at or below the top of the
  address space.
\<close>

definition window_fits :: "'a::len word FirStereo_Config \<Rightarrow> bool" where
  "window_fits c \<longleftrightarrow>
     32 < LENGTH('a) \<or> (LENGTH('a) = 32 \<and> NumTaps c \<le> 0x3FFFFFFC)"



text \<open>
  The store that results from applying the writes of a list of log entries, first to
  last, to a store: what a device that keeps the last value written to each address
  holds after these accesses.
\<close>

fun replay :: "'addr access list \<Rightarrow> ('addr \<Rightarrow> u32) \<Rightarrow> 'addr \<Rightarrow> u32" where
  "replay [] m = m"
| "replay (Read a v # es) m = replay es m"
| "replay (Write a v # es) m = replay es (m(a := v))"

text \<open>
  The device states at operation boundaries after a successful \<open>FIR_Init\<close> has
  produced descriptor \<open>c\<close>: the state \<open>FIR_Init\<close> leaves, and every state that a
  call of another operation of the API on \<open>c\<close> leads to from such a state.
\<close>

inductive reachable :: "'a::len word FirStereo_Config \<Rightarrow> 'a word mmio \<Rightarrow> bool"
  for c :: "'a word FirStereo_Config" where
  init: "FIR_Init (Some d) b n s0 = (st, Some c, s) \<Longrightarrow> reachable c s"
| enable: "reachable c s \<Longrightarrow> reachable c (FIR_Enable c e s)"
| soft_reset: "reachable c s \<Longrightarrow> reachable c (FIR_SoftReset c s)"
| set_coeff: "reachable c s \<Longrightarrow> reachable c (FIR_SetCoeff c i v s)"
| get_coeff: "reachable c s \<Longrightarrow> reachable c (snd (FIR_GetCoeff c i s))"
| load_config: "reachable c s \<Longrightarrow> reachable c (FIR_LoadConfig c A L s)"

text \<open>
  The order of stores that property 5 of section 8 lists for \<open>load_config(A, L)\<close> when
  its items (a) to (d) are read as a sequence: the CTRL store with ENABLE low, the supplied
  values at indices \<open>[0, min(L,N))\<close>, the zeros at \<open>[min(L,N), N)\<close>, and the CTRL
  store that sets ENABLE again when \<open>r\<close>, the value CTRL held at entry, had it set.
  This follows the words of the specification, not the source.
\<close>

definition spec_load_stores ::
  "'a::len word FirStereo_Config \<Rightarrow> (u32 \<Rightarrow> s16) \<Rightarrow> u32 \<Rightarrow> u32 \<Rightarrow> 'a word access list" where
  "spec_load_stores c A L r =
     [Write (BaseAddress c) (r AND NOT FIR_CTRL_ENABLE_BIT)] @
     map (\<lambda>k. Write (coeff_addr c k) (scast (A k))) (tap_range 0 (min L (NumTaps c))) @
     map (\<lambda>k. Write (coeff_addr c k) 0) (tap_range (min L (NumTaps c)) (NumTaps c)) @
     (if bit r 0 then [Write (BaseAddress c) ((r AND NOT FIR_CTRL_ENABLE_BIT) OR FIR_CTRL_ENABLE_BIT)]
      else [])"

subsection \<open>Concrete devices, descriptors and coefficient arrays\<close>

text \<open>A device on which every word reads as \<open>v\<close>, with an empty log.\<close>

definition uniform_dev :: "u32 \<Rightarrow> 'addr mmio" where
  "uniform_dev v = \<lparr>mem = (\<lambda>a. v), log = []\<rparr>"

text \<open>A descriptor slot before \<open>FIR_Init\<close> has filled it.\<close>

definition blank_slot :: "'a::len word FirStereo_Config" where
  "blank_slot = \<lparr>BaseAddress = 0, NumTaps = 0, IsReady = 0\<rparr>"

text \<open>A ready descriptor with the given base address and tap count.\<close>

definition ready_cfg :: "'a::len word \<Rightarrow> u32 \<Rightarrow> 'a word FirStereo_Config" where
  "ready_cfg b n = \<lparr>BaseAddress = b, NumTaps = n, IsReady = XIL_COMPONENT_IS_READY\<rparr>"

text \<open>The coefficient array \<open>{0x1111, 0x2222, 0x3333}\<close> of scenario S3.\<close>

definition S3_coeffs :: "u32 \<Rightarrow> s16" where
  "S3_coeffs i = (if i = 0 then 0x1111 else if i = 1 then 0x2222 else if i = 2 then 0x3333 else 0)"


section \<open>Properties of the building blocks\<close>

lemma bit_ENABLE: "bit FIR_CTRL_ENABLE_BIT n \<longleftrightarrow> n = 0"
  by (auto simp: FIR_CTRL_ENABLE_BIT_def bit_simps)

lemma bit_CLEAR: "bit FIR_CTRL_CLEAR_BIT n \<longleftrightarrow> n = 1"
  by (auto simp: FIR_CTRL_CLEAR_BIT_def bit_simps)

lemma bit_set_ENABLE: "bit (r OR FIR_CTRL_ENABLE_BIT) n \<longleftrightarrow> bit r n \<or> n = 0"
  by (simp add: bit_or_iff bit_ENABLE)

lemma bit_clr_ENABLE: "bit (r AND NOT FIR_CTRL_ENABLE_BIT) n \<longleftrightarrow> bit r n \<and> n \<noteq> 0"
  by (auto simp: bit_and_iff bit_not_iff bit_ENABLE dest: bit_imp_le_length)

lemma bit_set_CLEAR: "bit (r OR FIR_CTRL_CLEAR_BIT) n \<longleftrightarrow> bit r n \<or> n = 1"
  by (simp add: bit_or_iff bit_CLEAR)

lemma bit_clr_CLEAR: "bit (r AND NOT FIR_CTRL_CLEAR_BIT) n \<longleftrightarrow> bit r n \<and> n \<noteq> 1"
  by (auto simp: bit_and_iff bit_not_iff bit_CLEAR dest: bit_imp_le_length)

lemmas ctrl_bits = bit_set_ENABLE bit_clr_ENABLE bit_set_CLEAR bit_clr_CLEAR

lemma reserved_kept:
  "drop_bit 2 (r OR FIR_CTRL_ENABLE_BIT) = drop_bit 2 r"
  "drop_bit 2 (r AND NOT FIR_CTRL_ENABLE_BIT) = drop_bit 2 r"
  "drop_bit 2 (r OR FIR_CTRL_CLEAR_BIT) = drop_bit 2 r"
  "drop_bit 2 (r AND NOT FIR_CTRL_CLEAR_BIT) = drop_bit 2 r"
  by (rule bit_word_eqI, simp only: bit_drop_bit_eq o_apply ctrl_bits, simp)+

lemma ENABLE_test: "(r AND FIR_CTRL_ENABLE_BIT \<noteq> 0) = bit r 0"
  by (simp add: FIR_CTRL_ENABLE_BIT_def and_one_eq bit_0 mod_2_eq_odd)

lemma s16_roundtrip: "ucast (scast (v :: s16) :: u32) = v"
  by (rule bit_word_eqI) (auto simp: bit_simps)

lemma ctrl_addr_simp: "BaseAddress c + FIR_REG_CTRL_OFFSET = BaseAddress c"
  by (simp add: FIR_REG_CTRL_OFFSET_def)

lemma log_Enable:
  "log (FIR_Enable c e s) = log s @
     [Read (BaseAddress c) (mem s (BaseAddress c)),
      Write (BaseAddress c) (if e \<noteq> 0 then mem s (BaseAddress c) OR FIR_CTRL_ENABLE_BIT
             else mem s (BaseAddress c) AND NOT FIR_CTRL_ENABLE_BIT)]"
  by (simp add: FIR_Enable_def FIR_ReadReg_def FIR_WriteReg_def Xil_In32_def Xil_Out32_def ctrl_addr_simp)

lemma mem_Enable:
  "mem (FIR_Enable c e s) = (mem s)(BaseAddress c :=
      (if e \<noteq> 0 then mem s (BaseAddress c) OR FIR_CTRL_ENABLE_BIT
             else mem s (BaseAddress c) AND NOT FIR_CTRL_ENABLE_BIT))"
  by (simp add: FIR_Enable_def FIR_ReadReg_def FIR_WriteReg_def Xil_In32_def Xil_Out32_def ctrl_addr_simp)

lemma log_SoftReset:
  "log (FIR_SoftReset c s) = log s @
     [Read (BaseAddress c) (mem s (BaseAddress c)),
      Write (BaseAddress c) (mem s (BaseAddress c) OR FIR_CTRL_CLEAR_BIT),
      Write (BaseAddress c) (mem s (BaseAddress c) AND NOT FIR_CTRL_CLEAR_BIT)]"
  by (simp add: FIR_SoftReset_def Let_def FIR_ReadReg_def FIR_WriteReg_def Xil_In32_def Xil_Out32_def ctrl_addr_simp)

lemma mem_SoftReset:
  "mem (FIR_SoftReset c s) = (mem s)(BaseAddress c := mem s (BaseAddress c) AND NOT FIR_CTRL_CLEAR_BIT)"
  by (simp add: FIR_SoftReset_def Let_def FIR_ReadReg_def FIR_WriteReg_def Xil_In32_def Xil_Out32_def ctrl_addr_simp)

lemma log_SetCoeff:
  "log (FIR_SetCoeff c i v s) = log s @ (if i < NumTaps c then [Write (coeff_addr c i) (scast v)] else [])"
  by (auto simp: FIR_SetCoeff_def FIR_WriteReg_def Xil_Out32_def)

lemma mem_SetCoeff:
  "mem (FIR_SetCoeff c i v s) = (if i < NumTaps c then (mem s)(coeff_addr c i := scast v) else mem s)"
  by (auto simp: FIR_SetCoeff_def FIR_WriteReg_def Xil_Out32_def)

lemma GetCoeff_eq:
  "FIR_GetCoeff c i s = (if i < NumTaps c then (ucast (mem s (coeff_addr c i)), s\<lparr>log := log s @ [Read (coeff_addr c i) (mem s (coeff_addr c i))]\<rparr>) else (0, s))"
  by (auto simp: FIR_GetCoeff_def FIR_ReadReg_def Xil_In32_def)

lemma loop_counter_step: "(i :: u32) < n \<Longrightarrow> unat (i + 1) = Suc (unat i)"
proof -
  assume "i < n"
  then have "unat i < unat n"
    by (simp add: word_less_nat_alt)
  moreover have "unat n < 2 ^ 32"
    using unsigned_less [of n] by simp
  ultimately show ?thesis
    by (simp add: unat_word_ariths)
qed

lemma tap_range_step: "i < n \<Longrightarrow> tap_range i n = i # tap_range (i + 1) n"
  by (simp add: tap_range_def loop_counter_step word_less_nat_alt upt_conv_Cons)

lemma tap_range_done: "\<not> i < n \<Longrightarrow> tap_range i n = []"
  by (simp add: tap_range_def word_less_nat_alt)

lemma log_clear_loop:
  "log (clear_loop c i s) =
     log s @ map (\<lambda>k. Write (coeff_addr c k) 0) (tap_range i (NumTaps c))"
proof (induction c i s rule: clear_loop.induct)
  case (1 c i s)
  show ?case
  proof (cases "i < NumTaps c")
    case True
    with "1" show ?thesis
      by (subst clear_loop.simps) (simp add: tap_range_step log_SetCoeff)
  next
    case False
    then show ?thesis
      by (subst clear_loop.simps) (simp add: tap_range_done)
  qed
qed

lemma log_load_loop:
  "l \<le> NumTaps c \<Longrightarrow> log (load_loop c A l i s) =
     log s @ map (\<lambda>k. Write (coeff_addr c k) (scast (A k))) (tap_range i l)"
proof (induction c A l i s rule: load_loop.induct)
  case (1 c A l i s)
  show ?case
  proof (cases "i < l")
    case True
    with "1" show ?thesis
      by (subst load_loop.simps) (simp add: tap_range_step log_SetCoeff)
  next
    case False
    then show ?thesis
      by (subst load_loop.simps) (simp add: tap_range_done)
  qed
qed

lemma mem_clear_loop:
  "(\<And>k. k < NumTaps c \<Longrightarrow> a \<noteq> coeff_addr c k) \<Longrightarrow> mem (clear_loop c i s) a = mem s a"
proof (induction c i s rule: clear_loop.induct)
  case (1 c i s)
  show ?case
  proof (cases "i < NumTaps c")
    case True
    then have "clear_loop c i s = clear_loop c (i + 1) (FIR_SetCoeff c i 0 s)"
      by (subst clear_loop.simps) simp
    with "1" True show ?thesis
      by (simp add: mem_SetCoeff)
  next
    case False
    then show ?thesis
      by (subst clear_loop.simps) simp
  qed
qed

lemma mem_load_loop:
  "(\<And>k. k < NumTaps c \<Longrightarrow> a \<noteq> coeff_addr c k) \<Longrightarrow> mem (load_loop c A l i s) a = mem s a"
proof (induction c A l i s rule: load_loop.induct)
  case (1 c A l i s)
  show ?case
  proof (cases "i < l")
    case True
    then have "load_loop c A l i s = load_loop c A l (i + 1) (FIR_SetCoeff c i (A i) s)"
      by (subst load_loop.simps) simp
    with "1" True show ?thesis
      by (simp add: mem_SetCoeff)
  next
    case False
    then show ?thesis
      by (subst load_loop.simps) simp
  qed
qed

lemma slot_off_ctrl:
  fixes c :: "'a::len word FirStereo_Config"
  assumes fits: "window_fits c" and k: "k < NumTaps c"
  shows "coeff_addr c k \<noteq> BaseAddress c"
proof -
  let ?x = "unat (k * 4)"
  have x: "?x < 2 ^ 32"
    using unsigned_less [of "k * 4"] by simp
  have bound: "16 + ?x < 2 ^ LENGTH('a)"
  proof (cases "32 < LENGTH('a)")
    case True
    then have "(2::nat) ^ 33 \<le> 2 ^ LENGTH('a)"
      by (intro power_increasing) simp_all
    with x show ?thesis by simp
  next
    case False
    with fits have L: "LENGTH('a) = 32" and n: "NumTaps c \<le> 0x3FFFFFFC"
      by (simp_all add: window_fits_def)
    from k n have "unat k < 0x3FFFFFFC"
      by (simp add: word_less_nat_alt word_le_nat_alt)
    then have "?x = unat k * 4"
      by (simp add: unat_word_ariths)
    with \<open>unat k < 0x3FFFFFFC\<close> L show ?thesis by simp
  qed
  have u: "unat (ucast (k * 4) :: 'a word) = ?x"
    using bound by (simp add: unsigned_ucast_eq take_bit_nat_eq_self_iff)
  have "16 < (2::nat) ^ LENGTH('a)"
    using bound by simp
  then have s: "unat (16 :: 'a word) = 16"
    by (simp add: take_bit_nat_eq_self_iff)
  have "unat (16 :: 'a word) + unat (ucast (k * 4) :: 'a word) < 2 ^ LENGTH('a)"
    using bound by (simp only: s u)
  then have "unat (16 + ucast (k * 4) :: 'a word) = unat (16 :: 'a word) + unat (ucast (k * 4) :: 'a word)"
    by (rule unat_add_lem [THEN iffD1])
  then have "unat (FIR_MEM_COEFF_OFFSET + ucast (k * 4) :: 'a word) = 16 + ?x"
    by (simp only: s u FIR_MEM_COEFF_OFFSET_def)
  then have "(FIR_MEM_COEFF_OFFSET + ucast (k * 4) :: 'a word) \<noteq> 0"
    by (metis add_is_0 unat_0 zero_neq_numeral)
  then show ?thesis
    by (simp add: coeff_addr_def add.assoc)
qed






lemma limit_min: "(if L < (N :: u32) then L else N) = min L N"
  by (auto simp: min_def)

lemma LoadConfig_unfold:
  "FIR_LoadConfig c A L s =
     (if bit (mem s (BaseAddress c)) 0
      then FIR_Enable c 1
             (load_loop c A (min L (NumTaps c)) 0
               (clear_loop c (min L (NumTaps c))
                 (FIR_Enable c 0 (s\<lparr>log := log s @ [Read (BaseAddress c) (mem s (BaseAddress c))]\<rparr>))))
      else load_loop c A (min L (NumTaps c)) 0
               (clear_loop c (min L (NumTaps c))
                 (FIR_Enable c 0 (s\<lparr>log := log s @ [Read (BaseAddress c) (mem s (BaseAddress c))]\<rparr>))))"
  by (simp add: FIR_LoadConfig_def FIR_ReadReg_def Xil_In32_def ctrl_addr_simp Let_def
        limit_min ENABLE_test)

lemma log_LoadConfig:
  "\<exists>r2. log (FIR_LoadConfig c A L s) = log s @
     [Read (BaseAddress c) (mem s (BaseAddress c)),
      Read (BaseAddress c) (mem s (BaseAddress c)),
      Write (BaseAddress c) (mem s (BaseAddress c) AND NOT FIR_CTRL_ENABLE_BIT)] @
     map (\<lambda>k. Write (coeff_addr c k) 0) (tap_range (min L (NumTaps c)) (NumTaps c)) @
     map (\<lambda>k. Write (coeff_addr c k) (scast (A k))) (tap_range 0 (min L (NumTaps c))) @
     (if bit (mem s (BaseAddress c)) 0
      then [Read (BaseAddress c) r2, Write (BaseAddress c) (r2 OR FIR_CTRL_ENABLE_BIT)]
      else []) \<and>
     (window_fits c \<longrightarrow> r2 = mem s (BaseAddress c) AND NOT FIR_CTRL_ENABLE_BIT)"
proof -
  let ?b = "BaseAddress c"
  let ?s1 = "s\<lparr>log := log s @ [Read ?b (mem s ?b)]\<rparr>"
  let ?s4 = "load_loop c A (min L (NumTaps c)) 0 (clear_loop c (min L (NumTaps c)) (FIR_Enable c 0 ?s1))"
  have tr: "log (FIR_LoadConfig c A L s) = log s @
     [Read ?b (mem s ?b), Read ?b (mem s ?b), Write ?b (mem s ?b AND NOT FIR_CTRL_ENABLE_BIT)] @
     map (\<lambda>k. Write (coeff_addr c k) 0) (tap_range (min L (NumTaps c)) (NumTaps c)) @
     map (\<lambda>k. Write (coeff_addr c k) (scast (A k))) (tap_range 0 (min L (NumTaps c))) @
     (if bit (mem s ?b) 0
      then [Read ?b (mem ?s4 ?b), Write ?b (mem ?s4 ?b OR FIR_CTRL_ENABLE_BIT)]
      else [])"
    by (simp add: LoadConfig_unfold log_Enable log_load_loop log_clear_loop)
  have "mem ?s4 ?b = mem s ?b AND NOT FIR_CTRL_ENABLE_BIT" if "window_fits c"
  proof -
    have "?b \<noteq> coeff_addr c k" if "k < NumTaps c" for k
      using slot_off_ctrl [OF \<open>window_fits c\<close> that] by simp
    then show ?thesis
      by (simp add: mem_load_loop mem_clear_loop mem_Enable)
  qed
  with tr show ?thesis
    by blast
qed

lemma mem_LoadConfig_ctrl:
  assumes "window_fits c"
  shows "mem (FIR_LoadConfig c A L s) (BaseAddress c) =
     (if bit (mem s (BaseAddress c)) 0
      then (mem s (BaseAddress c) AND NOT FIR_CTRL_ENABLE_BIT) OR FIR_CTRL_ENABLE_BIT
      else mem s (BaseAddress c) AND NOT FIR_CTRL_ENABLE_BIT)"
proof -
  have "BaseAddress c \<noteq> coeff_addr c k" if "k < NumTaps c" for k
    using slot_off_ctrl [OF assms that] by simp
  then show ?thesis
    by (simp add: LoadConfig_unfold mem_load_loop mem_clear_loop mem_Enable)
qed

lemma log_Init:
  "log (snd (snd (FIR_Init (Some d) b n s))) = log s @
     [Read b (mem s b),
      Write b (mem s b AND NOT FIR_CTRL_ENABLE_BIT),
      Read b (mem s b AND NOT FIR_CTRL_ENABLE_BIT),
      Write b ((mem s b AND NOT FIR_CTRL_ENABLE_BIT) OR FIR_CTRL_CLEAR_BIT),
      Write b ((mem s b AND NOT FIR_CTRL_ENABLE_BIT) AND NOT FIR_CTRL_CLEAR_BIT)]"
  by (simp add: FIR_Init_def Let_def log_SoftReset log_Enable mem_Enable)

lemma mem_Init:
  "mem (snd (snd (FIR_Init (Some d) b n s))) =
     (mem s)(b := (mem s b AND NOT FIR_CTRL_ENABLE_BIT) AND NOT FIR_CTRL_CLEAR_BIT)"
  by (simp add: FIR_Init_def Let_def mem_SoftReset mem_Enable)

lemma ready_cfg_sel: "BaseAddress (ready_cfg b n) = b" "NumTaps (ready_cfg b n) = n"
  by (simp_all add: ready_cfg_def)

lemma wrap_slot:
  "coeff_addr (ready_cfg (0x40000000 :: 32 word) 0x3FFFFFFD) 0x3FFFFFFC = 0x40000000"
  by (simp add: coeff_addr_def ready_cfg_def FIR_MEM_COEFF_OFFSET_def)

lemma S3_log:
  "log (FIR_LoadConfig (ready_cfg (0x40000000 :: 32 word) 4) S3_coeffs 3 (uniform_dev 1)) =
     [Read 0x40000000 1, Read 0x40000000 1, Write 0x40000000 0,
      Write 0x4000001C 0,
      Write 0x40000010 0x1111, Write 0x40000014 0x2222, Write 0x40000018 0x3333,
      Read 0x40000000 0, Write 0x40000000 1]"
  by (simp add: LoadConfig_unfold ready_cfg_def uniform_dev_def S3_coeffs_def
        clear_loop.simps load_loop.simps FIR_SetCoeff_def FIR_WriteReg_def Xil_Out32_def
        log_Enable mem_Enable coeff_addr_def FIR_MEM_COEFF_OFFSET_def FIR_CTRL_ENABLE_BIT_def
        word_le_nat_alt word_less_nat_alt)

lemma S3_ranges: "tap_range 3 4 = [3]" "tap_range 0 3 = [0, 1, 2]"
  by (simp_all add: tap_range_def upt_rec)

lemma clear_low_Enable:
  "bit (mem (FIR_Enable c e s) (BaseAddress c)) (Suc 0) = bit (mem s (BaseAddress c)) (Suc 0)"
  by (simp add: mem_Enable ctrl_bits)

lemma clear_low_SoftReset: "\<not> bit (mem (FIR_SoftReset c s) (BaseAddress c)) (Suc 0)"
  by (simp add: mem_SoftReset ctrl_bits)

lemma clear_low_GetCoeff: "mem (snd (FIR_GetCoeff c i s)) = mem s"
  by (simp add: GetCoeff_eq)

lemma clear_low_SetCoeff:
  "window_fits c \<Longrightarrow> mem (FIR_SetCoeff c i v s) (BaseAddress c) = mem s (BaseAddress c)"
  by (auto simp: mem_SetCoeff dest: slot_off_ctrl)

lemma clear_low_LoadConfig:
  "window_fits c \<Longrightarrow>
     bit (mem (FIR_LoadConfig c A L s) (BaseAddress c)) (Suc 0) = bit (mem s (BaseAddress c)) (Suc 0)"
  by (simp add: mem_LoadConfig_ctrl ctrl_bits)

lemma clear_low_Init:
  "FIR_Init (Some d) b n s0 = (st, Some c, s) \<Longrightarrow> \<not> bit (mem s (BaseAddress c)) (Suc 0)"
  by (auto simp: FIR_Init_def Let_def mem_SoftReset ctrl_bits)

lemma clear_low_reachable:
  "reachable c s \<Longrightarrow> window_fits c \<Longrightarrow> \<not> bit (mem s (BaseAddress c)) (Suc 0)"
proof (induction rule: reachable.induct)
  case (init d b n s0 st s)
  then show ?case by (simp add: clear_low_Init)
next
  case (enable s e)
  then show ?case by (simp add: clear_low_Enable)
next
  case (soft_reset s)
  then show ?case by (simp add: clear_low_SoftReset)
next
  case (set_coeff s i v)
  then show ?case by (simp add: clear_low_SetCoeff)
next
  case (get_coeff s i)
  then show ?case by (simp add: clear_low_GetCoeff)
next
  case (load_config s A L)
  then show ?case by (simp add: clear_low_LoadConfig)
qed














lemma replay_ctrl_rmw:
  "a \<noteq> b \<Longrightarrow> replay (if P then [Read b r, Write b v] else []) m a = m a"
  by simp








section \<open>The claims\<close>

subsection \<open>Initialisation\<close>

text \<open>
  C8 (status of \<open>FIR_Init\<close>). \<open>FIR_Init\<close> returns the failure status if and only
  if the descriptor pointer is \<open>NULL\<close>. On failure the device and its log are as they
  were (no bus access) and there is no descriptor to write. On success it returns the
  success status and the descriptor holds the given base address and tap count and the
  ready flag; neither argument is checked, the statement holds for every \<open>b\<close> and
  \<open>n\<close>.
\<close>

theorem C8_init_status:
  "(fst (FIR_Init p b n s) = XST_FAILURE \<longleftrightarrow> p = None) \<and>
   (p = None \<longrightarrow> FIR_Init p b n s = (XST_FAILURE, None, s)) \<and>
   (\<forall>d. p = Some d \<longrightarrow>
      fst (FIR_Init p b n s) = XST_SUCCESS \<and>
      fst (snd (FIR_Init p b n s)) =
        Some \<lparr>BaseAddress = b, NumTaps = n, IsReady = XIL_COMPONENT_IS_READY\<rparr>)"
  by (cases p) (simp_all add: FIR_Init_def Let_def XST_SUCCESS_def XST_FAILURE_def)

text \<open>
  Both branches at concrete inputs: a \<open>NULL\<close> pointer, and a blank descriptor slot
  initialised with base \<open>0x40000000\<close> and 8 taps.
\<close>

theorem C8_init_status_witness:
  "FIR_Init None (0x40000000 :: 32 word) 8 (uniform_dev 0) = (XST_FAILURE, None, uniform_dev 0) \<and>
   fst (FIR_Init (Some blank_slot) (0x40000000 :: 32 word) 8 (uniform_dev 0)) = XST_SUCCESS \<and>
   fst (FIR_Init (Some blank_slot) (0x40000000 :: 32 word) 8 (uniform_dev 0)) \<noteq> XST_FAILURE \<and>
   fst (snd (FIR_Init (Some blank_slot) (0x40000000 :: 32 word) 8 (uniform_dev 0))) =
     Some (ready_cfg 0x40000000 8)"
  using C8_init_status [of None "0x40000000 :: 32 word" 8 "uniform_dev 0"]
    C8_init_status [of "Some blank_slot" "0x40000000 :: 32 word" 8 "uniform_dev 0"]
  by (simp add: ready_cfg_def)

text \<open>
  C9 (trace of \<open>FIR_Init\<close>), as claimed: exactly one CTRL read, then the three CTRL
  writes, and no other access. Scenario S1 refutes it: on a device whose CTRL reads 0 the
  log of \<open>FIR_Init\<close> at base \<open>0x40000000\<close> with 8 taps has five entries, two of
  them reads. \<open>FIR_Enable\<close> and \<open>FIR_SoftReset\<close> each begin with their own read
  of CTRL.
\<close>

theorem C9_init_trace_counterexample:
  "log (snd (snd (FIR_Init (Some blank_slot) (0x40000000 :: 32 word) 8 (uniform_dev 0)))) =
     [Read 0x40000000 0, Write 0x40000000 0, Read 0x40000000 0,
      Write 0x40000000 2, Write 0x40000000 0] \<and>
   length (filter is_read
     (log (snd (snd (FIR_Init (Some blank_slot) (0x40000000 :: 32 word) 8 (uniform_dev 0)))))) = 2 \<and>
   log (snd (snd (FIR_Init (Some blank_slot) (0x40000000 :: 32 word) 8 (uniform_dev 0)))) \<noteq>
     [Read 0x40000000 0, Write 0x40000000 0, Write 0x40000000 2, Write 0x40000000 0]"
  by (simp add: log_Init uniform_dev_def FIR_CTRL_ENABLE_BIT_def FIR_CTRL_CLEAR_BIT_def)

text \<open>
  C9 as amended. A successful \<open>FIR_Init\<close> performs exactly these five accesses, all to
  CTRL, in this order: a read, a write with ENABLE low, a second read, a write with CLEAR
  high and a write with CLEAR low. When CTRL reads 0 at entry the three written values are
  \<open>0x0\<close>, \<open>0x2\<close>, \<open>0x0\<close>.
\<close>

theorem C9_init_trace:
  "log (snd (snd (FIR_Init (Some d) b n s))) = log s @
     [Read b (mem s b),
      Write b (mem s b AND NOT FIR_CTRL_ENABLE_BIT),
      Read b (mem s b AND NOT FIR_CTRL_ENABLE_BIT),
      Write b ((mem s b AND NOT FIR_CTRL_ENABLE_BIT) OR FIR_CTRL_CLEAR_BIT),
      Write b ((mem s b AND NOT FIR_CTRL_ENABLE_BIT) AND NOT FIR_CTRL_CLEAR_BIT)] \<and>
   \<not> bit (mem s b AND NOT FIR_CTRL_ENABLE_BIT) 0 \<and>
   bit ((mem s b AND NOT FIR_CTRL_ENABLE_BIT) OR FIR_CTRL_CLEAR_BIT) 1 \<and>
   \<not> bit ((mem s b AND NOT FIR_CTRL_ENABLE_BIT) AND NOT FIR_CTRL_CLEAR_BIT) 1 \<and>
   (mem s b = 0 \<longrightarrow>
      filter is_write (drop (length (log s)) (log (snd (snd (FIR_Init (Some d) b n s))))) =
        [Write b 0, Write b 2, Write b 0])"
proof -
  have bits: "\<not> bit (mem s b AND NOT FIR_CTRL_ENABLE_BIT) 0"
    "bit ((mem s b AND NOT FIR_CTRL_ENABLE_BIT) OR FIR_CTRL_CLEAR_BIT) 1"
    "\<not> bit ((mem s b AND NOT FIR_CTRL_ENABLE_BIT) AND NOT FIR_CTRL_CLEAR_BIT) 1"
    by (simp_all add: ctrl_bits)
  have quiet: "filter is_write (drop (length (log s)) (log (snd (snd (FIR_Init (Some d) b n s))))) =
      [Write b 0, Write b 2, Write b 0]" if "mem s b = 0"
    using that by (simp add: log_Init FIR_CTRL_ENABLE_BIT_def FIR_CTRL_CLEAR_BIT_def)
  from bits quiet show ?thesis
    by (simp only: log_Init) simp
qed

text \<open>
  Scenario S1 as the instance: CTRL reads 0 and the stores are \<open>0x0\<close>, \<open>0x2\<close>,
  \<open>0x0\<close> at \<open>0x40000000\<close>.
\<close>

theorem C9_init_trace_witness:
  "mem (uniform_dev 0 :: 32 word mmio) 0x40000000 = 0 \<and>
   filter is_write (log (snd (snd (FIR_Init (Some blank_slot) (0x40000000 :: 32 word) 8 (uniform_dev 0))))) =
     [Write 0x40000000 0, Write 0x40000000 2, Write 0x40000000 0]"
  using C9_init_trace [of blank_slot "0x40000000 :: 32 word" 8 "uniform_dev 0"]
  by (simp add: uniform_dev_def FIR_CTRL_ENABLE_BIT_def FIR_CTRL_CLEAR_BIT_def)

subsection \<open>Enable and disable\<close>

text \<open>
  C7 (idempotence of \<open>FIR_Enable\<close>). For every argument \<open>e\<close>, calling
  \<open>FIR_Enable\<close> twice leaves every word of the device, CTRL included, as one call
  does. After the two calls bit 0 of CTRL is set exactly when \<open>e\<close> is non-zero, and
  bit 1 and bits 2..31 are those CTRL had before the first call. In particular
  \<open>enable(true); enable(true)\<close> leaves ENABLE high.
\<close>

theorem C7_enable_idempotent:
  "mem (FIR_Enable c e (FIR_Enable c e s)) = mem (FIR_Enable c e s) \<and>
   bit (mem (FIR_Enable c e (FIR_Enable c e s)) (BaseAddress c)) 0 = (e \<noteq> 0) \<and>
   bit (mem (FIR_Enable c e (FIR_Enable c e s)) (BaseAddress c)) 1 = bit (mem s (BaseAddress c)) 1 \<and>
   drop_bit 2 (mem (FIR_Enable c e (FIR_Enable c e s)) (BaseAddress c)) =
     drop_bit 2 (mem s (BaseAddress c)) \<and>
   bit (mem (FIR_Enable c 1 (FIR_Enable c 1 s)) (BaseAddress c)) 0"
  by (simp add: mem_Enable ctrl_bits reserved_kept del: drop_bit_or drop_bit_and)

text \<open>
  An instance with reserved bits and CLEAR set: CTRL reads \<open>0xA6\<close>, and after two
  calls with a true argument it holds \<open>0xA7\<close>.
\<close>

theorem C7_enable_idempotent_witness:
  "mem (FIR_Enable (ready_cfg (0x40000000 :: 32 word) 8) 1
         (FIR_Enable (ready_cfg 0x40000000 8) 1 (uniform_dev 0xA6))) 0x40000000 = 0xA7 \<and>
   mem (FIR_Enable (ready_cfg (0x40000000 :: 32 word) 8) 1
         (FIR_Enable (ready_cfg 0x40000000 8) 1 (uniform_dev 0xA6))) =
     mem (FIR_Enable (ready_cfg (0x40000000 :: 32 word) 8) 1 (uniform_dev 0xA6)) \<and>
   drop_bit 2 (0xA7 :: u32) = drop_bit 2 (0xA6 :: u32)"
  using C7_enable_idempotent [of "ready_cfg (0x40000000 :: 32 word) 8" 1 "uniform_dev 0xA6"]
  by (simp add: mem_Enable ready_cfg_sel uniform_dev_def FIR_CTRL_ENABLE_BIT_def)

subsection \<open>Reserved bits of CTRL\<close>

text \<open>
  C3 (reserved bits masked), as claimed: every value that \<open>FIR_Enable\<close> and
  \<open>FIR_SoftReset\<close> store to CTRL has bits 2..31 zero. When CTRL reads \<open>0xFFFFFFFC\<close>,
  \<open>FIR_Enable\<close> with a true argument stores \<open>0xFFFFFFFD\<close> and \<open>FIR_SoftReset\<close>
  stores \<open>0xFFFFFFFE\<close> and then \<open>0xFFFFFFFC\<close>: the reserved bits of the value read are
  written back.
\<close>

theorem C3_reserved_bits_counterexample:
  "log (FIR_Enable (ready_cfg (0x40000000 :: 32 word) 8) 1 (uniform_dev 0xFFFFFFFC)) =
     [Read 0x40000000 0xFFFFFFFC, Write 0x40000000 0xFFFFFFFD] \<and>
   drop_bit 2 (0xFFFFFFFD :: u32) \<noteq> 0 \<and>
   log (FIR_SoftReset (ready_cfg (0x40000000 :: 32 word) 8) (uniform_dev 0xFFFFFFFC)) =
     [Read 0x40000000 0xFFFFFFFC, Write 0x40000000 0xFFFFFFFE, Write 0x40000000 0xFFFFFFFC] \<and>
   drop_bit 2 (0xFFFFFFFE :: u32) \<noteq> 0 \<and> drop_bit 2 (0xFFFFFFFC :: u32) \<noteq> 0"
  by (simp add: log_Enable log_SoftReset ready_cfg_def uniform_dev_def
        FIR_CTRL_ENABLE_BIT_def FIR_CTRL_CLEAR_BIT_def)

text \<open>
  C3 as amended. \<open>FIR_Enable\<close> reads CTRL and stores the value read with only bit 0
  changed; \<open>FIR_SoftReset\<close> reads CTRL and stores the value read with only bit 1
  changed, twice. In every one of these stores bits 2..31 are those of the value read:
  the driver carries the reserved bits over and does not mask them.
\<close>

theorem C3_reserved_bits_carried:
  "log (FIR_Enable c e s) = log s @
     [Read (BaseAddress c) (mem s (BaseAddress c)),
      Write (BaseAddress c) (if e \<noteq> 0 then mem s (BaseAddress c) OR FIR_CTRL_ENABLE_BIT
                             else mem s (BaseAddress c) AND NOT FIR_CTRL_ENABLE_BIT)] \<and>
   drop_bit 2 (if e \<noteq> 0 then mem s (BaseAddress c) OR FIR_CTRL_ENABLE_BIT
               else mem s (BaseAddress c) AND NOT FIR_CTRL_ENABLE_BIT) =
     drop_bit 2 (mem s (BaseAddress c)) \<and>
   log (FIR_SoftReset c s) = log s @
     [Read (BaseAddress c) (mem s (BaseAddress c)),
      Write (BaseAddress c) (mem s (BaseAddress c) OR FIR_CTRL_CLEAR_BIT),
      Write (BaseAddress c) (mem s (BaseAddress c) AND NOT FIR_CTRL_CLEAR_BIT)] \<and>
   drop_bit 2 (mem s (BaseAddress c) OR FIR_CTRL_CLEAR_BIT) = drop_bit 2 (mem s (BaseAddress c)) \<and>
   drop_bit 2 (mem s (BaseAddress c) AND NOT FIR_CTRL_CLEAR_BIT) = drop_bit 2 (mem s (BaseAddress c))"
  by (simp add: log_Enable log_SoftReset reserved_kept del: drop_bit_or drop_bit_and)

text \<open>
  An instance: CTRL reads \<open>0x17\<close>, disabling stores \<open>0x16\<close>, and both have the
  same bits 2..31.
\<close>

theorem C3_reserved_bits_carried_witness:
  "log (FIR_Enable (ready_cfg (0x40000000 :: 32 word) 8) 0 (uniform_dev 0x00000017)) =
     [Read 0x40000000 0x17, Write 0x40000000 0x16] \<and>
   drop_bit 2 (0x16 :: u32) = drop_bit 2 (0x17 :: u32)"
  using C3_reserved_bits_carried [of "ready_cfg (0x40000000 :: 32 word) 8" 0 "uniform_dev 0x17"]
  by (simp add: ready_cfg_def uniform_dev_def FIR_CTRL_ENABLE_BIT_def)

subsection \<open>Soft reset\<close>

text \<open>
  C6 (soft reset touches no coefficient slot), as claimed for every descriptor. With 32-bit
  addresses and a tap count of \<open>0x3FFFFFFD\<close>, slot \<open>0x3FFFFFFC\<close> is within range and
  its address \<open>base + 0x10 + 4 * 0x3FFFFFFC\<close> wraps around to the base address, which
  is CTRL. The two stores of \<open>FIR_SoftReset\<close> then go to the address of that slot, and
  on a device whose words read 2 the coefficient read back from it changes from 2 to 0.
\<close>

theorem C6_soft_reset_counterexample:
  "(0x3FFFFFFC :: u32) < NumTaps (ready_cfg (0x40000000 :: 32 word) 0x3FFFFFFD) \<and>
   log (FIR_SoftReset (ready_cfg (0x40000000 :: 32 word) 0x3FFFFFFD) (uniform_dev 0)) =
     [Read 0x40000000 0,
      Write (coeff_addr (ready_cfg (0x40000000 :: 32 word) 0x3FFFFFFD) 0x3FFFFFFC) 2,
      Write (coeff_addr (ready_cfg (0x40000000 :: 32 word) 0x3FFFFFFD) 0x3FFFFFFC) 0] \<and>
   fst (FIR_GetCoeff (ready_cfg (0x40000000 :: 32 word) 0x3FFFFFFD) 0x3FFFFFFC (uniform_dev 2)) = 2 \<and>
   fst (FIR_GetCoeff (ready_cfg (0x40000000 :: 32 word) 0x3FFFFFFD) 0x3FFFFFFC
          (FIR_SoftReset (ready_cfg (0x40000000 :: 32 word) 0x3FFFFFFD) (uniform_dev 2))) = 0"
  by (simp add: log_SoftReset mem_SoftReset GetCoeff_eq wrap_slot ready_cfg_sel uniform_dev_def
        FIR_CTRL_CLEAR_BIT_def word_less_nat_alt)

text \<open>
  C6 as amended. \<open>FIR_SoftReset\<close> performs exactly one read of CTRL followed by two
  writes of CTRL: the value read with the CLEAR bit set, then the value read with the
  CLEAR bit cleared, bit 0 and bits 2..31 carried from the read both times. Every word at
  an address other than CTRL is unchanged; so, whenever the coefficient window does not
  wrap onto CTRL (\<open>window_fits\<close>), every coefficient word and every coefficient read
  back is unchanged. The ENABLE bit of CTRL after the call equals the one before. With
  CTRL reading \<open>0x00000001\<close> the two writes are \<open>0x00000003\<close> and \<open>0x00000001\<close>.
\<close>

theorem C6_soft_reset:
  "log (FIR_SoftReset c s) = log s @
     [Read (BaseAddress c) (mem s (BaseAddress c)),
      Write (BaseAddress c) (mem s (BaseAddress c) OR FIR_CTRL_CLEAR_BIT),
      Write (BaseAddress c) (mem s (BaseAddress c) AND NOT FIR_CTRL_CLEAR_BIT)] \<and>
   bit (mem s (BaseAddress c) OR FIR_CTRL_CLEAR_BIT) 1 \<and>
   \<not> bit (mem s (BaseAddress c) AND NOT FIR_CTRL_CLEAR_BIT) 1 \<and>
   bit (mem s (BaseAddress c) OR FIR_CTRL_CLEAR_BIT) 0 = bit (mem s (BaseAddress c)) 0 \<and>
   bit (mem s (BaseAddress c) AND NOT FIR_CTRL_CLEAR_BIT) 0 = bit (mem s (BaseAddress c)) 0 \<and>
   drop_bit 2 (mem s (BaseAddress c) OR FIR_CTRL_CLEAR_BIT) = drop_bit 2 (mem s (BaseAddress c)) \<and>
   drop_bit 2 (mem s (BaseAddress c) AND NOT FIR_CTRL_CLEAR_BIT) = drop_bit 2 (mem s (BaseAddress c)) \<and>
   (\<forall>a. a \<noteq> BaseAddress c \<longrightarrow> mem (FIR_SoftReset c s) a = mem s a) \<and>
   (window_fits c \<longrightarrow> (\<forall>i. i < NumTaps c \<longrightarrow>
      mem (FIR_SoftReset c s) (coeff_addr c i) = mem s (coeff_addr c i) \<and>
      fst (FIR_GetCoeff c i (FIR_SoftReset c s)) = fst (FIR_GetCoeff c i s))) \<and>
   bit (mem (FIR_SoftReset c s) (BaseAddress c)) 0 = bit (mem s (BaseAddress c)) 0 \<and>
   (mem s (BaseAddress c) = 1 \<longrightarrow>
      filter is_write (drop (length (log s)) (log (FIR_SoftReset c s))) =
        [Write (BaseAddress c) 3, Write (BaseAddress c) 1])"
proof -
  have bits: "bit (mem s (BaseAddress c) OR FIR_CTRL_CLEAR_BIT) 1"
    "\<not> bit (mem s (BaseAddress c) AND NOT FIR_CTRL_CLEAR_BIT) 1"
    "bit (mem s (BaseAddress c) OR FIR_CTRL_CLEAR_BIT) 0 = bit (mem s (BaseAddress c)) 0"
    "bit (mem s (BaseAddress c) AND NOT FIR_CTRL_CLEAR_BIT) 0 = bit (mem s (BaseAddress c)) 0"
    "bit (mem (FIR_SoftReset c s) (BaseAddress c)) 0 = bit (mem s (BaseAddress c)) 0"
    by (simp_all add: ctrl_bits mem_SoftReset)
  have frame: "\<forall>a. a \<noteq> BaseAddress c \<longrightarrow> mem (FIR_SoftReset c s) a = mem s a"
    by (simp add: mem_SoftReset)
  have coeffs: "mem (FIR_SoftReset c s) (coeff_addr c i) = mem s (coeff_addr c i) \<and>
      fst (FIR_GetCoeff c i (FIR_SoftReset c s)) = fst (FIR_GetCoeff c i s)"
    if "window_fits c" "i < NumTaps c" for i
    using slot_off_ctrl [OF that] that(2) by (simp add: mem_SoftReset GetCoeff_eq)
  have S5: "filter is_write (drop (length (log s)) (log (FIR_SoftReset c s))) =
        [Write (BaseAddress c) 3, Write (BaseAddress c) 1]" if "mem s (BaseAddress c) = 1"
    using that by (simp add: log_SoftReset FIR_CTRL_CLEAR_BIT_def)
  from bits frame coeffs S5 reserved_kept(3,4) [of "mem s (BaseAddress c)"] log_SoftReset [of c s]
  show ?thesis
    by blast
qed

text \<open>
  Scenario S5 as the instance: 8 taps at \<open>0x40000000\<close>, CTRL reads 1; the stores are
  3 and 1, and slot 3 at \<open>0x4000001C\<close> keeps its word.
\<close>

theorem C6_soft_reset_witness:
  "mem (uniform_dev 1 :: 32 word mmio) (BaseAddress (ready_cfg (0x40000000 :: 32 word) 8)) = 1 \<and>
   window_fits (ready_cfg (0x40000000 :: 32 word) 8) \<and>
   (3 :: u32) < NumTaps (ready_cfg (0x40000000 :: 32 word) 8) \<and>
   filter is_write (log (FIR_SoftReset (ready_cfg (0x40000000 :: 32 word) 8) (uniform_dev 1))) =
     [Write 0x40000000 3, Write 0x40000000 1] \<and>
   coeff_addr (ready_cfg (0x40000000 :: 32 word) 8) 3 = 0x4000001C \<and>
   mem (FIR_SoftReset (ready_cfg (0x40000000 :: 32 word) 8) (uniform_dev 1)) 0x4000001C =
     mem (uniform_dev 1 :: 32 word mmio) 0x4000001C \<and>
   fst (FIR_GetCoeff (ready_cfg (0x40000000 :: 32 word) 8) 3
         (FIR_SoftReset (ready_cfg (0x40000000 :: 32 word) 8) (uniform_dev 1))) =
     fst (FIR_GetCoeff (ready_cfg (0x40000000 :: 32 word) 8) 3 (uniform_dev 1))"
proof -
  let ?c = "ready_cfg (0x40000000 :: 32 word) 8"
  let ?s = "uniform_dev 1 :: 32 word mmio"
  note T = C6_soft_reset [of ?c ?s]
  have one: "mem ?s (BaseAddress ?c) = 1" and fits: "window_fits ?c" and lt: "(3 :: u32) < NumTaps ?c"
    and slot: "coeff_addr ?c 3 = 0x4000001C" and empty: "log ?s = []"
    by (simp_all add: uniform_dev_def ready_cfg_sel window_fits_def coeff_addr_def
          FIR_MEM_COEFF_OFFSET_def)
  from T one have "filter is_write (drop (length (log ?s)) (log (FIR_SoftReset ?c ?s))) =
      [Write (BaseAddress ?c) 3, Write (BaseAddress ?c) 1]"
    by blast
  then have stores: "filter is_write (log (FIR_SoftReset ?c ?s)) = [Write 0x40000000 3, Write 0x40000000 1]"
    by (simp add: empty ready_cfg_sel)
  from T fits lt have "mem (FIR_SoftReset ?c ?s) (coeff_addr ?c 3) = mem ?s (coeff_addr ?c 3) \<and>
      fst (FIR_GetCoeff ?c 3 (FIR_SoftReset ?c ?s)) = fst (FIR_GetCoeff ?c 3 ?s)"
    by blast
  with one fits lt stores slot show ?thesis
    by simp
qed

subsection \<open>Single-tap access\<close>

text \<open>
  C4 (round trip). For every descriptor with tap count \<open>N\<close>, whatever its ready flag,
  every index \<open>i < N\<close> and every signed 16-bit value \<open>v\<close>: on a device where a
  load returns the last value stored to the address, \<open>FIR_SetCoeff(i, v)\<close> followed by
  \<open>FIR_GetCoeff(i)\<close> returns exactly \<open>v\<close>. The stored word is the sign extension
  of \<open>v\<close>; the load truncates it back to 16 bits.
\<close>

theorem C4_round_trip:
  "i < NumTaps c \<Longrightarrow> fst (FIR_GetCoeff c i (FIR_SetCoeff c i v s)) = v"
  by (simp add: GetCoeff_eq mem_SetCoeff s16_roundtrip)

text \<open>
  Scenario S2 as the instance: tap 3 of 8 at base \<open>0x40000000\<close>, value \<open>-16384\<close>.
  The one store goes to \<open>0x4000001C\<close> and the value read back is \<open>-16384\<close>.
\<close>

theorem C4_round_trip_witness:
  "(3 :: u32) < NumTaps (ready_cfg (0x40000000 :: 32 word) 8) \<and>
   fst (FIR_GetCoeff (ready_cfg (0x40000000 :: 32 word) 8) 3
         (FIR_SetCoeff (ready_cfg (0x40000000 :: 32 word) 8) 3 0xC000 (uniform_dev 0))) = 0xC000 \<and>
   sint (0xC000 :: s16) = - 16384 \<and>
   log (FIR_SetCoeff (ready_cfg (0x40000000 :: 32 word) 8) 3 0xC000 (uniform_dev 0)) =
     [Write 0x4000001C 0xFFFFC000]"
  using C4_round_trip [of 3 "ready_cfg (0x40000000 :: 32 word) 8" "0xC000" "uniform_dev 0"]
  by (simp add: ready_cfg_def log_SetCoeff coeff_addr_def FIR_MEM_COEFF_OFFSET_def uniform_dev_def)

text \<open>
  C5 (out of range). For every descriptor with tap count \<open>N\<close>, every index
  \<open>i \<ge> N\<close> and every value \<open>v\<close>: \<open>FIR_SetCoeff(i, v)\<close> leaves the device and
  its log as they were, so it performs no bus access at all; \<open>FIR_GetCoeff(i)\<close> returns
  0 and leaves the device and its log as they were, so the number of loads it performs
  (none) is at most one.
\<close>

theorem C5_out_of_range:
  "NumTaps c \<le> i \<Longrightarrow>
     FIR_SetCoeff c i v s = s \<and>
     FIR_GetCoeff c i s = (0, s) \<and>
     length (filter is_read (drop (length (log s)) (log (snd (FIR_GetCoeff c i s))))) \<le> 1"
  by (simp add: FIR_SetCoeff_def FIR_GetCoeff_def)

text \<open>Scenario S4 as the instance: index 8 on a device with 8 taps whose words read \<open>0x55AA\<close>.\<close>

theorem C5_out_of_range_witness:
  "NumTaps (ready_cfg (0x40000000 :: 32 word) 8) \<le> 8 \<and>
   FIR_SetCoeff (ready_cfg (0x40000000 :: 32 word) 8) 8 0x7FFF (uniform_dev 0x55AA) = uniform_dev 0x55AA \<and>
   FIR_GetCoeff (ready_cfg (0x40000000 :: 32 word) 8) 8 (uniform_dev 0x55AA) = (0, uniform_dev 0x55AA)"
  using C5_out_of_range [of "ready_cfg (0x40000000 :: 32 word) 8" 8 "0x7FFF" "uniform_dev 0x55AA"]
  by (simp add: ready_cfg_def)

subsection \<open>Bulk load\<close>




text \<open>
  C2 (order of the bulk load), as claimed: the stores of the supplied values precede the
  zero stores. In scenario S3 the stores of \<open>FIR_LoadConfig\<close> are the CTRL store, the
  zero at \<open>0x4000001C\<close>, the three values and the CTRL store; the order the claim
  lists (\<open>spec_load_stores\<close>) has the zero after the three values, and the two lists
  differ.
\<close>

theorem C2_order_counterexample:
  "filter is_write (log (FIR_LoadConfig (ready_cfg (0x40000000 :: 32 word) 4) S3_coeffs 3 (uniform_dev 1))) =
     [Write 0x40000000 0, Write 0x4000001C 0,
      Write 0x40000010 0x1111, Write 0x40000014 0x2222, Write 0x40000018 0x3333,
      Write 0x40000000 1] \<and>
   spec_load_stores (ready_cfg (0x40000000 :: 32 word) 4) S3_coeffs 3 1 =
     [Write 0x40000000 0,
      Write 0x40000010 0x1111, Write 0x40000014 0x2222, Write 0x40000018 0x3333,
      Write 0x4000001C 0, Write 0x40000000 1] \<and>
   filter is_write (log (FIR_LoadConfig (ready_cfg (0x40000000 :: 32 word) 4) S3_coeffs 3 (uniform_dev 1)))
     \<noteq> spec_load_stores (ready_cfg (0x40000000 :: 32 word) 4) S3_coeffs 3 1"
  unfolding S3_log
  by (simp add: spec_load_stores_def S3_ranges ready_cfg_def S3_coeffs_def coeff_addr_def
        FIR_MEM_COEFF_OFFSET_def FIR_CTRL_ENABLE_BIT_def)

text \<open>
  C2 as amended. For every call with \<open>L < N\<close> the stores of \<open>FIR_LoadConfig\<close> are,
  in this order: (a) a CTRL write with ENABLE low, then (c) the zero writes to the slots
  \<open>L, \<dots>, N - 1\<close>, of which there is at least one, then (b) the writes of the supplied
  values to the slots \<open>0, \<dots>, L - 1\<close> in index order, then (d) a CTRL write with ENABLE
  high if and only if ENABLE was high at entry. The zero padding precedes the supplied
  values.
\<close>

theorem C2_padding_first:
  "L < NumTaps c \<Longrightarrow>
   \<exists>r2. filter is_write (drop (length (log s)) (log (FIR_LoadConfig c A L s))) =
     [Write (BaseAddress c) (mem s (BaseAddress c) AND NOT FIR_CTRL_ENABLE_BIT)] @
     map (\<lambda>k. Write (coeff_addr c k) 0) (tap_range L (NumTaps c)) @
     map (\<lambda>k. Write (coeff_addr c k) (scast (A k))) (tap_range 0 L) @
     (if bit (mem s (BaseAddress c)) 0
      then [Write (BaseAddress c) (r2 OR FIR_CTRL_ENABLE_BIT)] else []) \<and>
     tap_range L (NumTaps c) \<noteq> [] \<and>
     \<not> bit (mem s (BaseAddress c) AND NOT FIR_CTRL_ENABLE_BIT) 0 \<and>
     bit (r2 OR FIR_CTRL_ENABLE_BIT) 0 \<and>
     (window_fits c \<longrightarrow> r2 = mem s (BaseAddress c) AND NOT FIR_CTRL_ENABLE_BIT)"
proof -
  assume less: "L < NumTaps c"
  then have lim: "min L (NumTaps c) = L"
    by (simp add: min_absorb1 order_less_imp_le)
  have wr: "filter is_write (map (\<lambda>k. Write (f k) (g k)) ks) = map (\<lambda>k. Write (f k) (g k)) ks"
    for f :: "u32 \<Rightarrow> 'a word" and g ks
    by (induction ks) simp_all
  from log_LoadConfig [of c A L s] obtain r2 where
    "log (FIR_LoadConfig c A L s) = log s @
     [Read (BaseAddress c) (mem s (BaseAddress c)),
      Read (BaseAddress c) (mem s (BaseAddress c)),
      Write (BaseAddress c) (mem s (BaseAddress c) AND NOT FIR_CTRL_ENABLE_BIT)] @
     map (\<lambda>k. Write (coeff_addr c k) 0) (tap_range L (NumTaps c)) @
     map (\<lambda>k. Write (coeff_addr c k) (scast (A k))) (tap_range 0 L) @
     (if bit (mem s (BaseAddress c)) 0
      then [Read (BaseAddress c) r2, Write (BaseAddress c) (r2 OR FIR_CTRL_ENABLE_BIT)]
      else [])"
    and fits: "window_fits c \<longrightarrow> r2 = mem s (BaseAddress c) AND NOT FIR_CTRL_ENABLE_BIT"
    unfolding lim by blast
  then have "filter is_write (drop (length (log s)) (log (FIR_LoadConfig c A L s))) =
     [Write (BaseAddress c) (mem s (BaseAddress c) AND NOT FIR_CTRL_ENABLE_BIT)] @
     map (\<lambda>k. Write (coeff_addr c k) 0) (tap_range L (NumTaps c)) @
     map (\<lambda>k. Write (coeff_addr c k) (scast (A k))) (tap_range 0 L) @
     (if bit (mem s (BaseAddress c)) 0
      then [Write (BaseAddress c) (r2 OR FIR_CTRL_ENABLE_BIT)] else [])"
    by (simp add: wr)
  moreover from less have "tap_range L (NumTaps c) \<noteq> []"
    by (simp add: tap_range_step)
  moreover have "\<not> bit (mem s (BaseAddress c) AND NOT FIR_CTRL_ENABLE_BIT) 0"
    "bit (r2 OR FIR_CTRL_ENABLE_BIT) 0"
    by (simp_all add: ctrl_bits)
  ultimately show ?thesis
    using fits by blast
qed

text \<open>
  Scenario S3 as the instance, with \<open>L = 3 < 4 = N\<close>.
\<close>

theorem C2_padding_first_witness:
  "(3 :: u32) < NumTaps (ready_cfg (0x40000000 :: 32 word) 4) \<and>
   window_fits (ready_cfg (0x40000000 :: 32 word) 4) \<and>
   filter is_write
      (log (FIR_LoadConfig (ready_cfg (0x40000000 :: 32 word) 4) S3_coeffs 3 (uniform_dev 1))) =
     [Write 0x40000000 0, Write 0x4000001C 0,
      Write 0x40000010 0x1111, Write 0x40000014 0x2222, Write 0x40000018 0x3333,
      Write 0x40000000 1]"
  using C2_padding_first [of 3 "ready_cfg (0x40000000 :: 32 word) 4" "uniform_dev 1" S3_coeffs]
  by (auto simp: S3_ranges ready_cfg_def S3_coeffs_def coeff_addr_def uniform_dev_def window_fits_def
        FIR_MEM_COEFF_OFFSET_def FIR_CTRL_ENABLE_BIT_def)

subsection \<open>The CLEAR bit at operation boundaries\<close>

text \<open>
  C10 (CLEAR is never left latched), as claimed for every operation and every descriptor.
  With 32-bit addresses, \<open>FIR_Init\<close> with a tap count of \<open>0x3FFFFFFD\<close> succeeds and
  leaves CLEAR low; \<open>FIR_SetCoeff\<close> on slot \<open>0x3FFFFFFC\<close>, which is within range and
  whose address wraps around to CTRL, with value 2 then stores 2 to CTRL and leaves CLEAR
  high.
\<close>

theorem C10_clear_not_latched_counterexample:
  "FIR_Init (Some blank_slot) (0x40000000 :: 32 word) 0x3FFFFFFD (uniform_dev 0) =
     (XST_SUCCESS, Some (ready_cfg 0x40000000 0x3FFFFFFD),
      FIR_SoftReset (ready_cfg 0x40000000 0x3FFFFFFD)
        (FIR_Enable (ready_cfg 0x40000000 0x3FFFFFFD) 0 (uniform_dev 0))) \<and>
   \<not> bit (mem (FIR_SoftReset (ready_cfg (0x40000000 :: 32 word) 0x3FFFFFFD)
        (FIR_Enable (ready_cfg 0x40000000 0x3FFFFFFD) 0 (uniform_dev 0))) 0x40000000) 1 \<and>
   bit (mem (FIR_SetCoeff (ready_cfg (0x40000000 :: 32 word) 0x3FFFFFFD) 0x3FFFFFFC 2
        (FIR_SoftReset (ready_cfg 0x40000000 0x3FFFFFFD)
          (FIR_Enable (ready_cfg 0x40000000 0x3FFFFFFD) 0 (uniform_dev 0)))) 0x40000000) 1"
proof -
  have "bit (2 :: u32) 1"
    by (simp add: bit_simps)
  moreover have "(scast (2 :: s16) :: u32) = 2"
    by simp
  moreover have "(0x3FFFFFFC :: u32) < 0x3FFFFFFD"
    by (simp add: word_less_nat_alt)
  ultimately show ?thesis
    using clear_low_SoftReset [of "ready_cfg (0x40000000 :: 32 word) 0x3FFFFFFD"
        "FIR_Enable (ready_cfg 0x40000000 0x3FFFFFFD) 0 (uniform_dev 0)"]
    by (simp add: FIR_Init_def Let_def blank_slot_def mem_SetCoeff wrap_slot ready_cfg_sel)
     (simp add: ready_cfg_def)
qed

text \<open>
  C10 as amended. On a device where CTRL holds the last value written to it: after a
  successful \<open>FIR_Init\<close> the CLEAR bit of CTRL is 0; \<open>FIR_Enable\<close>,
  \<open>FIR_SoftReset\<close> and \<open>FIR_GetCoeff\<close> started with CLEAR low end with CLEAR low;
  \<open>FIR_SetCoeff\<close> and \<open>FIR_LoadConfig\<close> do so whenever the coefficient window does
  not wrap onto CTRL (\<open>window_fits\<close>: addresses wider than 32 bits, or 32 bits wide
  and a tap count of at most \<open>0x3FFFFFFC\<close>); and under that condition CLEAR is low in
  every state reachable after \<open>FIR_Init\<close>.
\<close>

theorem C10_clear_not_latched:
  "(FIR_Init (Some d) b n s0 = (st, Some c, s1) \<longrightarrow> \<not> bit (mem s1 (BaseAddress c)) 1) \<and>
   (\<not> bit (mem s (BaseAddress c)) 1 \<longrightarrow>
      \<not> bit (mem (FIR_Enable c e s) (BaseAddress c)) 1 \<and>
      \<not> bit (mem (FIR_SoftReset c s) (BaseAddress c)) 1 \<and>
      \<not> bit (mem (snd (FIR_GetCoeff c i s)) (BaseAddress c)) 1) \<and>
   (window_fits c \<and> \<not> bit (mem s (BaseAddress c)) 1 \<longrightarrow>
      \<not> bit (mem (FIR_SetCoeff c i v s) (BaseAddress c)) 1 \<and>
      \<not> bit (mem (FIR_LoadConfig c A L s) (BaseAddress c)) 1) \<and>
   (window_fits c \<and> reachable c s2 \<longrightarrow> \<not> bit (mem s2 (BaseAddress c)) 1)"
  using clear_low_Init [of d b n s0 st c s1] clear_low_reachable [of c s2]
    clear_low_Enable [of c e s] clear_low_SoftReset [of c s] clear_low_GetCoeff [of c i s]
    clear_low_SetCoeff [of c i v s] clear_low_LoadConfig [of c A L s]
  by auto

text \<open>
  An instance: 8 taps at \<open>0x40000000\<close>; after \<open>FIR_Init\<close>, an enable, a store of 2
  to tap 3 and the bulk load of scenario S3, CLEAR is low.
\<close>

theorem C10_clear_not_latched_witness:
  "window_fits (ready_cfg (0x40000000 :: 32 word) 8) \<and>
   reachable (ready_cfg (0x40000000 :: 32 word) 8)
     (FIR_LoadConfig (ready_cfg 0x40000000 8) S3_coeffs 3
       (FIR_SetCoeff (ready_cfg 0x40000000 8) 3 2
         (FIR_Enable (ready_cfg 0x40000000 8) 1
           (snd (snd (FIR_Init (Some blank_slot) 0x40000000 8 (uniform_dev 0))))))) \<and>
   \<not> bit (mem (FIR_LoadConfig (ready_cfg (0x40000000 :: 32 word) 8) S3_coeffs 3
       (FIR_SetCoeff (ready_cfg 0x40000000 8) 3 2
         (FIR_Enable (ready_cfg 0x40000000 8) 1
           (snd (snd (FIR_Init (Some blank_slot) 0x40000000 8 (uniform_dev 0)))))))
      (BaseAddress (ready_cfg (0x40000000 :: 32 word) 8))) 1"
proof -
  have fits: "window_fits (ready_cfg (0x40000000 :: 32 word) 8)"
    by (simp add: window_fits_def ready_cfg_def)
  have "FIR_Init (Some blank_slot) (0x40000000 :: 32 word) 8 (uniform_dev 0) =
      (XST_SUCCESS, Some (ready_cfg 0x40000000 8),
       snd (snd (FIR_Init (Some blank_slot) (0x40000000 :: 32 word) 8 (uniform_dev 0))))"
    by (simp add: FIR_Init_def Let_def blank_slot_def ready_cfg_def)
  then have "reachable (ready_cfg (0x40000000 :: 32 word) 8)
      (snd (snd (FIR_Init (Some blank_slot) 0x40000000 8 (uniform_dev 0))))"
    by (rule reachable.init)
  then have reach: "reachable (ready_cfg (0x40000000 :: 32 word) 8)
     (FIR_LoadConfig (ready_cfg 0x40000000 8) S3_coeffs 3
       (FIR_SetCoeff (ready_cfg 0x40000000 8) 3 2
         (FIR_Enable (ready_cfg 0x40000000 8) 1
           (snd (snd (FIR_Init (Some blank_slot) 0x40000000 8 (uniform_dev 0)))))))"
    by (intro reachable.load_config reachable.set_coeff reachable.enable)
  from fits reach C10_clear_not_latched [of _ _ _ _ _ "ready_cfg (0x40000000 :: 32 word) 8"]
  show ?thesis
    by blast
qed

end
